theory Spec2Isabelle
  imports Complex_Main "HOL-Library.Word" "HOL-Library.Signed_Division"
begin

section \<open>Machine arithmetic of the target\<close>

text \<open>
  The sketches are built for the ESP32, where \<^verbatim>\<open>int\<close> and \<^verbatim>\<open>long\<close> are both
  32-bit two's complement and \<^verbatim>\<open>unsigned long\<close> is a 32-bit unsigned value. Signed
  values are modelled as \<^typ>\<open>int\<close> with the wrap-around written out by \<open>wrap32\<close>
  after every operation that could leave the range; \<^verbatim>\<open>millis()\<close> values are
  \<^typ>\<open>32 word\<close>. C's integer division truncates towards zero, which is \<open>sdiv\<close>
  on \<^typ>\<open>int\<close>.
\<close>

definition wrap32 :: "int \<Rightarrow> int" where
  "wrap32 x = (x + 2 ^ 31) mod 2 ^ 32 - 2 ^ 31"

definition in32 :: "int \<Rightarrow> bool" where
  "in32 x = (- (2 ^ 31) \<le> x \<and> x < 2 ^ 31)"

text \<open>
  The conversion of a \<^verbatim>\<open>double\<close> or \<^verbatim>\<open>float\<close> to \<^verbatim>\<open>int\<close> drops the fraction
  (rounds towards zero).
\<close>

definition to_int :: "rat \<Rightarrow> int" where
  "to_int x = (if 0 \<le> x then \<lfloor>x\<rfloor> else \<lceil>x\<rceil>)"


section \<open>Calibration\<close>

text \<open>
  \<^verbatim>\<open>const int SOIL_WET_RAW = 700; const int SOIL_DRY_RAW = 2300;
  const int LDR_DARK_RAW = 450; const int LDR_BRIGHT_RAW = 3000;\<close>
  (the same four constants in all three sketches).
\<close>

definition SOIL_WET_RAW :: int where "SOIL_WET_RAW = 700"
definition SOIL_DRY_RAW :: int where "SOIL_DRY_RAW = 2300"
definition LDR_DARK_RAW :: int where "LDR_DARK_RAW = 450"
definition LDR_BRIGHT_RAW :: int where "LDR_BRIGHT_RAW = 3000"

text \<open>
  \<^verbatim>\<open>int clampPct(int v){ return v<0 ? 0 : (v > 100 ? 100 : v); }\<close>
\<close>

definition clampPct :: "int \<Rightarrow> int" where
  "clampPct v = (if v < 0 then 0 else (if v > 100 then 100 else v))"

text \<open>
  \<^verbatim>\<open>map\<close> is the Arduino core's function, not part of the sketches:
  \<^verbatim>\<open>long map(long x, long in_min, long in_max, long out_min, long out_max)
  { return (x - in_min) * (out_max - out_min) / (in_max - in_min) + out_min; }\<close>
  It is taken from the Arduino reference, every \<^verbatim>\<open>long\<close> operation wrapping to 32
  bits. Both call sites pass constant bounds with \<open>in_max \<noteq> in_min\<close>, so the division
  never has a zero divisor.
\<close>

definition map_long :: "int \<Rightarrow> int \<Rightarrow> int \<Rightarrow> int \<Rightarrow> int \<Rightarrow> int" where
  "map_long x in_min in_max out_min out_max =
     wrap32 (wrap32 (wrap32 (wrap32 (x - in_min) * wrap32 (out_max - out_min))
                       sdiv wrap32 (in_max - in_min)) + out_min)"

text \<open>
  \<^verbatim>\<open>int soilToPct(int raw){ return clampPct(map(raw, SOIL_DRY_RAW, SOIL_WET_RAW, 0, 100)); }
  int lightToPct(int raw){ return clampPct(map(raw, LDR_DARK_RAW, LDR_BRIGHT_RAW, 0, 100)); }\<close>
\<close>

definition soilToPct :: "int \<Rightarrow> int" where
  "soilToPct raw = clampPct (map_long raw SOIL_DRY_RAW SOIL_WET_RAW 0 100)"

definition lightToPct :: "int \<Rightarrow> int" where
  "lightToPct raw = clampPct (map_long raw LDR_DARK_RAW LDR_BRIGHT_RAW 0 100)"


section \<open>Scorer\<close>

text \<open>
  The line \<^verbatim>\<open>int score = (soilPct * 7.7 + lightPct * 2.5) / 10;\<close> of \<^verbatim>\<open>loop\<close>
  (the same in all three sketches). The expression is evaluated in \<^verbatim>\<open>double\<close> and
  converted to \<^verbatim>\<open>int\<close>. It is modelled in exact rational arithmetic. On the inputs the
  calibration can produce (both percentages in 0..100) the binary64 evaluation gives the
  same integer as the exact one: an exact value that is not an integer is at least 1/100
  away from the next one, far more than the rounding error, and the cases with an integer
  value (among them 100, 100) were recomputed in binary64 one by one outside the theory.
\<close>

definition score :: "int \<Rightarrow> int \<Rightarrow> int" where
  "score soilPct lightPct =
     to_int ((of_int soilPct * (77 / 10) + of_int lightPct * (5 / 2)) / 10)"


section \<open>Alert state machine\<close>

text \<open>
  Only the third sketch (\<^verbatim>\<open>src/unnamed/part_000\<close>) has alerting:
  \<^verbatim>\<open>const float HAPPINESS_THRESHOLD = 40.0; const float RECOVERY_MARGIN = 5.0;
  bool alertSent = false;\<close>
  \<^verbatim>\<open>float happiness = (float)score;\<close> is exact for every score the scorer can
  produce, and both constants are binary fractions, so the comparisons are modelled on
  \<^typ>\<open>rat\<close>.
\<close>

definition HAPPINESS_THRESHOLD :: rat where "HAPPINESS_THRESHOLD = 40"
definition RECOVERY_MARGIN :: rat where "RECOVERY_MARGIN = 5"

text \<open>
  The two message texts built in \<^verbatim>\<open>loop\<close>, by their contents:
  \<^verbatim>\<open>"Happiness dropped to <happiness>% (threshold <threshold>%). Soil: <soilPct>%, Light: <lightPct>%."\<close>
  and \<^verbatim>\<open>"Happiness recovered to <happiness>%. Soil: <soilPct>%, Light: <lightPct>%."\<close>
\<close>

datatype alert_msg =
    Dropped rat rat int int
  | Recovered rat int int

text \<open>
  The block \<^verbatim>\<open>ALERT LOGIC\<close> of \<^verbatim>\<open>loop\<close>. The result is the message handed to
  \<^verbatim>\<open>sendPushoverAlert\<close> in this tick, if any, and the new value of \<^verbatim>\<open>alertSent\<close>.
  \<^verbatim>\<open>
  if (happiness < HAPPINESS_THRESHOLD) {
    if (!alertSent) { ...; sendPushoverAlert(msg); alertSent = true; }
  } else if (happiness > HAPPINESS_THRESHOLD + RECOVERY_MARGIN) {
    if (alertSent) { ...; sendPushoverAlert(msg); }
    alertSent = false;
  }\<close>
\<close>

definition alertLogic :: "int \<Rightarrow> int \<Rightarrow> int \<Rightarrow> bool \<Rightarrow> alert_msg option \<times> bool" where
  "alertLogic scoreV soilPct lightPct alertSent =
     (let happiness = (of_int scoreV :: rat) in
      if happiness < HAPPINESS_THRESHOLD then
        (if \<not> alertSent
         then (Some (Dropped happiness HAPPINESS_THRESHOLD soilPct lightPct), True)
         else (None, alertSent))
      else if happiness > HAPPINESS_THRESHOLD + RECOVERY_MARGIN then
        ((if alertSent then Some (Recovered happiness soilPct lightPct) else None), False)
      else (None, alertSent))"

fun isDegraded :: "alert_msg option \<Rightarrow> bool" where
  "isDegraded (Some (Dropped h t s l)) = True"
| "isDegraded _ = False"

fun isRecovered :: "alert_msg option \<Rightarrow> bool" where
  "isRecovered (Some (Recovered h s l)) = True"
| "isRecovered _ = False"

text \<open>
  Feeding the state machine tick by tick: each tick is the pair of percentages of that
  tick, the score is computed from them as \<^verbatim>\<open>loop\<close> does, and the flag is carried
  over. The result lists, per tick, the message handed to the alert sender.
\<close>

fun alertTicks :: "bool \<Rightarrow> (int \<times> int) list \<Rightarrow> alert_msg option list" where
  "alertTicks alertSent [] = []"
| "alertTicks alertSent ((soilPct, lightPct) # ts) =
     (case alertLogic (score soilPct lightPct) soilPct lightPct alertSent of
        (m, alertSent') \<Rightarrow> m # alertTicks alertSent' ts)"


section \<open>Connectivity and delivery\<close>

text \<open>
  What the network does is an input of the model. For one call of a sender, \<open>link k\<close> is
  the answer of the \<open>k\<close>-th evaluation of \<^verbatim>\<open>WiFi.status() == WL_CONNECTED\<close> during that
  call (counted from 0), \<open>beginOk\<close> the result of \<^verbatim>\<open>http.begin\<close> and \<open>postCode\<close> the
  value \<^verbatim>\<open>http.POST\<close> returns (an HTTP status, or a negative transport error).
\<close>

record call_env =
  link :: "nat \<Rightarrow> bool"
  beginOk :: bool
  postCode :: int

datatype sink = Influx | Supabase | Pushover

record telemetry =
  soil_pct :: rat
  ldr_pct :: rat
  happiness :: int

datatype body =
    LineProtocol telemetry
  | JsonRow telemetry
  | FormAlert alert_msg

datatype event = Reconnect | HttpPost sink body

datatype outcome =
    Success int
  | HttpError int
  | Posted int
  | BeginFailed
  | SkippedNoLink
  | FatalRestart

record delivery =
  result :: outcome
  events :: "event list"

definition MAX_RETRY_ATTEMPTS :: nat where "MAX_RETRY_ATTEMPTS = 5"

text \<open>
  The inner wait of \<^verbatim>\<open>connectToWiFi\<close>:
  \<^verbatim>\<open>while (WiFi.status() != WL_CONNECTED && timeout < 20) { delay(500); timeout++; }\<close>
  Every evaluation of the condition polls the link once; the result is the index of the
  next poll.
\<close>

function waitLink :: "(nat \<Rightarrow> bool) \<Rightarrow> nat \<Rightarrow> nat \<Rightarrow> nat" where
  "waitLink lnk k timeout =
     (if \<not> lnk k \<and> timeout < 20 then waitLink lnk (Suc k) (Suc timeout) else Suc k)"
  by pat_completeness auto
termination
  by (relation "measure (\<lambda>(lnk, k, timeout). 20 - timeout)") auto

declare waitLink.simps [simp del]

text \<open>
  The attempt loop of \<^verbatim>\<open>connectToWiFi\<close>:
  \<^verbatim>\<open>
  while (attempt < MAX_RETRY_ATTEMPTS) {
    attempt++;
    WiFi.begin(WIFI_SSID, WIFI_PASS);
    int timeout = 0;
    while (...) {...}
    if (WiFi.status() == WL_CONNECTED) { ...; return; }
    ...; delay(RETRY_DELAY);
  }
  ...; ESP.restart();\<close>
  \<open>Some k\<close>: the function returned with the link up, \<open>k\<close> being the index of the next
  poll; \<open>None\<close>: the attempts are used up and the device restarts.
\<close>

function connectLoop :: "(nat \<Rightarrow> bool) \<Rightarrow> nat \<Rightarrow> nat \<Rightarrow> nat option" where
  "connectLoop lnk k attempt =
     (if attempt < MAX_RETRY_ATTEMPTS then
        (let k' = waitLink lnk k 0 in
         if lnk k' then Some (Suc k') else connectLoop lnk (Suc k') (Suc attempt))
      else None)"
  by pat_completeness auto
termination
  by (relation "measure (\<lambda>(lnk, k, attempt). MAX_RETRY_ATTEMPTS - attempt)") auto

declare connectLoop.simps [simp del]

definition connectToWiFi :: "(nat \<Rightarrow> bool) \<Rightarrow> nat \<Rightarrow> nat option" where
  "connectToWiFi lnk k = connectLoop lnk k 0"

text \<open>
  \<^verbatim>\<open>void sendPushoverAlert(const String& message, const String& title)\<close>: the link is
  checked, \<^verbatim>\<open>connectToWiFi()\<close> is called when it is down and the link is checked
  again; then the request is posted. The response code is only printed.
\<close>

definition postPushover :: "call_env \<Rightarrow> alert_msg \<Rightarrow> event list \<Rightarrow> delivery" where
  "postPushover env message evs =
     (if \<not> beginOk env then \<lparr>result = BeginFailed, events = evs\<rparr>
      else \<lparr>result = Posted (postCode env),
            events = evs @ [HttpPost Pushover (FormAlert message)]\<rparr>)"

definition sendPushoverAlert :: "call_env \<Rightarrow> alert_msg \<Rightarrow> delivery" where
  "sendPushoverAlert env message =
     (if \<not> link env 0 then
        (case connectToWiFi (link env) 1 of
           None \<Rightarrow> \<lparr>result = FatalRestart, events = [Reconnect]\<rparr>
         | Some k \<Rightarrow>
             if \<not> link env k then \<lparr>result = SkippedNoLink, events = [Reconnect]\<rparr>
             else postPushover env message [Reconnect])
      else postPushover env message [])"

text \<open>
  \<^verbatim>\<open>void sendToInflux(float avgSoil, float avgLight, float avgScore)\<close>: skipped when
  the link is down; the line is \<^verbatim>\<open>soil_pct=<avgSoil>,ldr_pct=<avgLight>,happiness=<(int)avgScore>i\<close>;
  code 204 is success. The rounding of \<^verbatim>\<open>String(x, 1)\<close> to one decimal place is not
  modelled: a field holds the value that is formatted.
\<close>

definition sendToInflux :: "call_env \<Rightarrow> rat \<Rightarrow> rat \<Rightarrow> rat \<Rightarrow> delivery" where
  "sendToInflux env avgSoil avgLight avgScore =
     (if \<not> link env 0 then \<lparr>result = SkippedNoLink, events = []\<rparr>
      else if \<not> beginOk env then \<lparr>result = BeginFailed, events = []\<rparr>
      else
        (let line = LineProtocol
               \<lparr>soil_pct = avgSoil, ldr_pct = avgLight, happiness = to_int avgScore\<rparr>;
             code = postCode env
         in \<lparr>result = (if code = 204 then Success code else HttpError code),
             events = [HttpPost Influx line]\<rparr>))"

text \<open>
  \<^verbatim>\<open>void sendToSupabase(float avgSoil, float avgLight, float avgScore)\<close>: the same
  shape; the body is
  \<^verbatim>\<open>{"device_id":...,"soil_pct":<avgSoil>,"ldr_pct":<avgLight>,"happiness":<(int)avgScore>}\<close>;
  codes 201 and 204 are success.
\<close>

definition sendToSupabase :: "call_env \<Rightarrow> rat \<Rightarrow> rat \<Rightarrow> rat \<Rightarrow> delivery" where
  "sendToSupabase env avgSoil avgLight avgScore =
     (if \<not> link env 0 then \<lparr>result = SkippedNoLink, events = []\<rparr>
      else if \<not> beginOk env then \<lparr>result = BeginFailed, events = []\<rparr>
      else
        (let row = JsonRow
               \<lparr>soil_pct = avgSoil, ldr_pct = avgLight, happiness = to_int avgScore\<rparr>;
             code = postCode env
         in \<lparr>result = (if code = 201 \<or> code = 204 then Success code else HttpError code),
             events = [HttpPost Supabase row]\<rparr>))"


section \<open>Aggregator\<close>

text \<open>
  \<^verbatim>\<open>const unsigned long LOG_INTERVAL_MS = 600000UL;
  unsigned long lastSendMs = 0;
  long aggSoilSum = 0; long aggLightSum = 0; long aggScoreSum = 0; long aggCount = 0;\<close>
\<close>

definition LOG_INTERVAL_MS :: "32 word" where "LOG_INTERVAL_MS = 600000"

record agg =
  aggSoilSum :: int
  aggLightSum :: int
  aggScoreSum :: int
  aggCount :: int
  lastSendMs :: "32 word"

text \<open>
  \<^verbatim>\<open>aggSoilSum += soilPct; aggLightSum += lightPct; aggScoreSum += score; aggCount++;\<close>
\<close>

definition aggregate :: "int \<Rightarrow> int \<Rightarrow> int \<Rightarrow> agg \<Rightarrow> agg" where
  "aggregate soilPct lightPct scoreV st =
     st\<lparr>aggSoilSum := wrap32 (aggSoilSum st + soilPct),
        aggLightSum := wrap32 (aggLightSum st + lightPct),
        aggScoreSum := wrap32 (aggScoreSum st + scoreV),
        aggCount := wrap32 (aggCount st + 1)\<rparr>"

text \<open>
  The two sketches that upload differ in one line of the emission block:
  \<^verbatim>\<open>src/main_2.0/main_2.0.ino\<close> calls \<^verbatim>\<open>sendToSupabase(avgSoil, avgLight, avgScore)\<close>,
  \<^verbatim>\<open>src/unnamed/part_000\<close> calls \<^verbatim>\<open>sendToSupabase(avgSoil, avgScore, avgScore)\<close>.
\<close>

datatype variant = Main_2_0 | Part_000

record emission =
  avgSoil :: rat
  avgLight :: rat
  avgScore :: rat
  influx :: delivery
  supabase :: delivery

text \<open>
  The emission block of \<^verbatim>\<open>loop\<close>, with \<open>now\<close> the value of \<^verbatim>\<open>millis()\<close>:
  \<^verbatim>\<open>
  if (now - lastSendMs >= LOG_INTERVAL_MS && aggCount > 0) {
    float avgSoil  = float(aggSoilSum)  / aggCount;
    float avgLight = float(aggLightSum) / aggCount;
    float avgScore = float(aggScoreSum) / aggCount;
    ...
    sendToInflux(avgSoil, avgLight, avgScore);
    sendToSupabase(avgSoil, avgLight, avgScore);   // part_000: (avgSoil, avgScore, avgScore)
    aggSoilSum = aggLightSum = aggScoreSum = 0;
    aggCount   = 0;
    lastSendMs = now;
  }\<close>
  The subtraction is unsigned 32-bit. The quotients are modelled exactly (the rounding of
  the \<^verbatim>\<open>float\<close> division to binary32 is not modelled). \<open>envA\<close> and \<open>envB\<close> are what
  the network does during the two sender calls.
\<close>

definition emitBlock ::
  "variant \<Rightarrow> call_env \<Rightarrow> call_env \<Rightarrow> 32 word \<Rightarrow> agg \<Rightarrow> emission option \<times> agg" where
  "emitBlock v envA envB now st =
     (if LOG_INTERVAL_MS \<le> now - lastSendMs st \<and> aggCount st > 0 then
        (let aSoil = of_int (aggSoilSum st) / of_int (aggCount st);
             aLight = of_int (aggLightSum st) / of_int (aggCount st);
             aScore = of_int (aggScoreSum st) / of_int (aggCount st);
             a = sendToInflux envA aSoil aLight aScore;
             b = (case v of
                    Main_2_0 \<Rightarrow> sendToSupabase envB aSoil aLight aScore
                  | Part_000 \<Rightarrow> sendToSupabase envB aSoil aScore aScore)
         in (Some \<lparr>avgSoil = aSoil, avgLight = aLight, avgScore = aScore,
                    influx = a, supabase = b\<rparr>,
             st\<lparr>aggSoilSum := 0, aggLightSum := 0, aggScoreSum := 0, aggCount := 0,
                lastSendMs := now\<rparr>))
      else (None, st))"

text \<open>
  One tick of the aggregator, as \<^verbatim>\<open>loop\<close> runs it: accumulate the tick's three
  values, then the emission block.
\<close>

record tick =
  soilPct :: int
  lightPct :: int
  scoreV :: int
  now :: "32 word"
  envA :: call_env
  envB :: call_env

definition aggTick :: "variant \<Rightarrow> tick \<Rightarrow> agg \<Rightarrow> emission option \<times> agg" where
  "aggTick v t st =
     emitBlock v (envA t) (envB t) (now t) (aggregate (soilPct t) (lightPct t) (scoreV t) st)"

fun aggRun :: "variant \<Rightarrow> tick list \<Rightarrow> agg \<Rightarrow> emission option list \<times> agg" where
  "aggRun v [] st = ([], st)"
| "aggRun v (t # ts) st =
     (case aggTick v t st of
        (e, st') \<Rightarrow> (case aggRun v ts st' of (es, st'') \<Rightarrow> (e # es, st'')))"


section \<open>The main loop\<close>

text \<open>
  \<^verbatim>\<open>loop\<close> of \<^verbatim>\<open>src/main_2.0/main_2.0.ino\<close>, without the display: read both
  sensors, calibrate, score, aggregate, emit.
\<close>

definition loop_main_2_0 ::
  "int \<Rightarrow> int \<Rightarrow> 32 word \<Rightarrow> call_env \<Rightarrow> call_env \<Rightarrow> agg \<Rightarrow> emission option \<times> agg" where
  "loop_main_2_0 soilRaw ldrRaw nowMs eA eB st =
     (let sp = soilToPct soilRaw;
          lp = lightToPct ldrRaw;
          sc = score sp lp
      in emitBlock Main_2_0 eA eB nowMs (aggregate sp lp sc st))"

text \<open>
  \<^verbatim>\<open>loop\<close> of \<^verbatim>\<open>src/unnamed/part_000\<close>, without the display: the alert logic runs
  between scoring and aggregation. \<open>eP\<close> is what the network does during the call of
  \<^verbatim>\<open>sendPushoverAlert\<close>, if there is one. When \<^verbatim>\<open>connectToWiFi\<close> restarts the device
  the tick does not complete: \<open>None\<close>.
\<close>

definition loop_part_000 ::
  "int \<Rightarrow> int \<Rightarrow> 32 word \<Rightarrow> call_env \<Rightarrow> call_env \<Rightarrow> call_env \<Rightarrow> bool \<times> agg
     \<Rightarrow> (delivery option \<times> emission option \<times> bool \<times> agg) option" where
  "loop_part_000 soilRaw ldrRaw nowMs eP eA eB state =
     (let sp = soilToPct soilRaw;
          lp = lightToPct ldrRaw;
          sc = score sp lp;
          (msg, alertSent') = alertLogic sc sp lp (fst state);
          d = map_option (sendPushoverAlert eP) msg
      in if map_option result d = Some FatalRestart then None
         else (case emitBlock Part_000 eA eB nowMs (aggregate sp lp sc (snd state)) of
                 (e, st') \<Rightarrow> Some (d, e, alertSent', st')))"


text \<open>
  Six ticks whose percentages give the scores 60, 35, 35, 50, 42, 47 in this order.
\<close>

definition exampleTicks :: "(int \<times> int) list" where
  "exampleTicks = [(65, 40), (35, 33), (35, 33), (50, 46), (42, 40), (47, 46)]"


text \<open>
  Two network behaviours used as concrete inputs: the link up with every request
  accepted, and the link down throughout.
\<close>

definition linkUp :: "int \<Rightarrow> call_env" where
  "linkUp code = \<lparr>link = (\<lambda>k. True), beginOk = True, postCode = code\<rparr>"

definition linkDown :: call_env where
  "linkDown = \<lparr>link = (\<lambda>k. False), beginOk = True, postCode = 0\<rparr>"

text \<open>
  The aggregation state right after boot or right after an emission at time \<open>start\<close>:
  all sums and the count are zero.
\<close>

definition freshAt :: "32 word \<Rightarrow> agg" where
  "freshAt start =
     \<lparr>aggSoilSum = 0, aggLightSum = 0, aggScoreSum = 0, aggCount = 0, lastSendMs = start\<rparr>"

text \<open>
  The arithmetic mean of a list of samples, as the specification uses the term: the sum
  divided by the number of samples.
\<close>

definition mean :: "int list \<Rightarrow> rat" where
  "mean xs = of_int (sum_list xs) / of_int (int (length xs))"

text \<open>
  The values a tick can carry: the calibration returns percentages in 0..100 and the
  scorer at most 102 on them.
\<close>

definition sampleOk :: "tick \<Rightarrow> bool" where
  "sampleOk t =
     (0 \<le> soilPct t \<and> soilPct t \<le> 100 \<and> 0 \<le> lightPct t \<and> lightPct t \<le> 100
      \<and> 0 \<le> scoreV t \<and> scoreV t \<le> 102)"

text \<open>
  The ticks \<open>ts\<close> make up one window that starts at \<open>start\<close>: there is at least one
  tick, the interval has not elapsed at any tick but the last, and it has elapsed at the
  last one. The bound on the number of ticks keeps the sums below \<open>2 ^ 24\<close>, so that
  they neither wrap around nor lose digits when converted to \<^verbatim>\<open>float\<close>; a tick
  lasts five seconds, so a ten-minute window holds about 120 of them.
\<close>

definition windowOf :: "32 word \<Rightarrow> tick list \<Rightarrow> bool" where
  "windowOf start ts =
     (ts \<noteq> [] \<and> length ts \<le> 2 ^ 17 \<and> list_all sampleOk ts
      \<and> list_all (\<lambda>t. now t - start < LOG_INTERVAL_MS) (butlast ts)
      \<and> LOG_INTERVAL_MS \<le> now (last ts) - start)"


text \<open>
  Two consecutive windows used as a concrete input: two ticks, the second one due at
  600000 ms, then one tick due at 1200000 ms.
\<close>

definition windowA :: "tick list" where
  "windowA =
     [\<lparr>soilPct = 0, lightPct = 100, scoreV = 25, now = 5000,
       envA = linkUp 204, envB = linkUp 201\<rparr>,
      \<lparr>soilPct = 100, lightPct = 100, scoreV = 102, now = 600000,
       envA = linkUp 500, envB = linkUp 201\<rparr>]"

definition windowB :: "tick list" where
  "windowB =
     [\<lparr>soilPct = 50, lightPct = 50, scoreV = 51, now = 1200000,
       envA = linkDown, envB = linkDown\<rparr>]"


section \<open>Arithmetic lemmas\<close>

lemma wrap32_id: "in32 x \<Longrightarrow> wrap32 x = x"
  by (simp add: wrap32_def in32_def)

lemma sdiv_pos_divisor:
  fixes a b :: int
  assumes "0 < b"
  shows "a sdiv b = (if 0 \<le> a then a div b else - ((- a) div b))"
  using assms by (auto simp: signed_divide_int_def sgn_if)

lemma sdiv_neg_divisor:
  fixes a b :: int
  assumes "b < 0"
  shows "a sdiv b = - (a sdiv (- b))"
  using assms by (auto simp: signed_divide_int_def sgn_if)

lemma sdiv_mono_pos:
  fixes a a' b :: int
  assumes "0 < b" "a \<le> a'"
  shows "a sdiv b \<le> a' sdiv b"
proof -
  consider "0 \<le> a" | "a < 0" "0 \<le> a'" | "a' < 0" using assms by linarith
  then show ?thesis
  proof cases
    case 1
    then show ?thesis using assms by (simp add: sdiv_pos_divisor zdiv_mono1)
  next
    case 2
    have "0 \<le> (- a) div b" using 2 assms by (simp add: pos_imp_zdiv_nonneg_iff)
    moreover have "0 \<le> a' div b" using 2 assms by (simp add: pos_imp_zdiv_nonneg_iff)
    ultimately show ?thesis using 2 assms by (simp add: sdiv_pos_divisor)
  next
    case 3
    have "(- a') div b \<le> (- a) div b" using assms by (simp add: zdiv_mono1)
    then show ?thesis using 3 assms by (simp add: sdiv_pos_divisor)
  qed
qed

lemma sdiv_antimono_neg:
  fixes a a' b :: int
  assumes "b < 0" "a \<le> a'"
  shows "a' sdiv b \<le> a sdiv b"
proof -
  have "a sdiv (- b) \<le> a' sdiv (- b)"
    using assms by (intro sdiv_mono_pos) simp_all
  moreover have "a sdiv b = - (a sdiv (- b))" "a' sdiv b = - (a' sdiv (- b))"
    using assms(1) by (rule sdiv_neg_divisor)+
  ultimately show ?thesis by linarith
qed

lemma sdiv_1600: "(a::int) sdiv 1600 = (if 0 \<le> a then a div 1600 else - ((- a) div 1600))"
  by (rule sdiv_pos_divisor) simp

lemma sdiv_2550: "(a::int) sdiv 2550 = (if 0 \<le> a then a div 2550 else - ((- a) div 2550))"
  by (rule sdiv_pos_divisor) simp

lemma sdiv_m1600: "(a::int) sdiv (- 1600) = - (a sdiv 1600)"
  using sdiv_neg_divisor [of "- 1600" a] by simp


section \<open>Calibration: range and direction\<close>

lemma clampPct_range: "0 \<le> clampPct v \<and> clampPct v \<le> 100"
  by (simp add: clampPct_def)

lemma clampPct_mono: "v \<le> w \<Longrightarrow> clampPct v \<le> clampPct w"
  by (simp add: clampPct_def)

text \<open>
  As long as the product \<open>(raw - in_min) * 100\<close> fits 32 bits, \<^verbatim>\<open>map\<close> computes the
  truncated quotient without any wrap-around.
\<close>

lemma soil_map_exact:
  assumes "in32 ((raw - 2300) * 100)"
  shows "map_long raw SOIL_DRY_RAW SOIL_WET_RAW 0 100 = ((raw - 2300) * 100) sdiv (- 1600)"
proof -
  have d: "in32 (raw - 2300)" using assms by (simp add: in32_def)
  have q: "in32 (((raw - 2300) * 100) sdiv (- 1600))"
    using assms unfolding sdiv_m1600 sdiv_1600 in32_def by (simp; arith)
  have c: "wrap32 (100 - 0) = 100" "wrap32 (700 - 2300) = - 1600"
    by (simp_all add: wrap32_def)
  show ?thesis
    by (simp only: map_long_def SOIL_DRY_RAW_def SOIL_WET_RAW_def c
        wrap32_id [OF d] wrap32_id [OF assms] wrap32_id [OF q] add_0_right)
qed

lemma light_map_exact:
  assumes "in32 ((raw - 450) * 100)"
  shows "map_long raw LDR_DARK_RAW LDR_BRIGHT_RAW 0 100 = ((raw - 450) * 100) sdiv 2550"
proof -
  have d: "in32 (raw - 450)" using assms by (simp add: in32_def)
  have q: "in32 (((raw - 450) * 100) sdiv 2550)"
    using assms unfolding sdiv_2550 in32_def by (simp; arith)
  have c: "wrap32 (100 - 0) = 100" "wrap32 (3000 - 450) = 2550"
    by (simp_all add: wrap32_def)
  show ?thesis
    by (simp only: map_long_def LDR_DARK_RAW_def LDR_BRIGHT_RAW_def c
        wrap32_id [OF d] wrap32_id [OF assms] wrap32_id [OF q] add_0_right)
qed

lemma soilToPct_antimono:
  assumes "raw1 \<le> raw2" "in32 ((raw1 - 2300) * 100)" "in32 ((raw2 - 2300) * 100)"
  shows "soilToPct raw2 \<le> soilToPct raw1"
proof -
  have "(raw1 - 2300) * 100 \<le> (raw2 - 2300) * 100" using assms(1) by simp
  then have "((raw2 - 2300) * 100) sdiv (- 1600) \<le> ((raw1 - 2300) * 100) sdiv (- 1600)"
    by (intro sdiv_antimono_neg) simp_all
  then show ?thesis
    unfolding soilToPct_def soil_map_exact [OF assms(2)] soil_map_exact [OF assms(3)]
    by (rule clampPct_mono)
qed

lemma lightToPct_mono:
  assumes "raw1 \<le> raw2" "in32 ((raw1 - 450) * 100)" "in32 ((raw2 - 450) * 100)"
  shows "lightToPct raw1 \<le> lightToPct raw2"
proof -
  have "(raw1 - 450) * 100 \<le> (raw2 - 450) * 100" using assms(1) by simp
  then have "((raw1 - 450) * 100) sdiv 2550 \<le> ((raw2 - 450) * 100) sdiv 2550"
    by (intro sdiv_mono_pos) simp_all
  then show ?thesis
    unfolding lightToPct_def light_map_exact [OF assms(2)] light_map_exact [OF assms(3)]
    by (rule clampPct_mono)
qed

text \<open>
  C4. For every raw integer input, however far below or above the two calibration
  points, \<open>soilToPct\<close> and \<open>lightToPct\<close> return a value between 0 and 100 inclusive. Both
  are total functions with no error result: a raw value out of range is clamped.
\<close>

theorem C4_calibration_range:
  "0 \<le> soilToPct raw \<and> soilToPct raw \<le> 100 \<and> 0 \<le> lightToPct raw \<and> lightToPct raw \<le> 100"
  unfolding soilToPct_def lightToPct_def using clampPct_range by blast

text \<open>
  C10, as stated, fails once the 32-bit product in \<^verbatim>\<open>map\<close> wraps around: the raw value
  21477137 is above 2301 and yet gets the higher moisture percentage, and the raw value
  21475287 is above 3000 and yet gets the lower light percentage.
\<close>

theorem C10_counterexample:
  "in32 2301 \<and> in32 21477137 \<and> (2301::int) \<le> 21477137
   \<and> soilToPct 2301 = 0 \<and> soilToPct 21477137 = 100
   \<and> in32 3000 \<and> in32 21475287 \<and> (3000::int) \<le> 21475287
   \<and> lightToPct 3000 = 100 \<and> lightToPct 21475287 = 0"
  by (simp add: in32_def soilToPct_def lightToPct_def map_long_def wrap32_def clampPct_def
      SOIL_DRY_RAW_def SOIL_WET_RAW_def LDR_DARK_RAW_def LDR_BRIGHT_RAW_def
      signed_divide_int_def)

text \<open>
  C10, amended. On the raw values for which the 32-bit product in \<^verbatim>\<open>map\<close> does not
  overflow (from -21472536 to 21477136 for moisture, from -21474386 to 21475286 for light,
  which includes every reading 0..4095 of the converter) the two profiles run in opposite
  directions: \<open>soilToPct\<close> is non-increasing and \<open>lightToPct\<close> is non-decreasing in the
  raw reading.
\<close>

theorem C10_opposite_directions:
  assumes "raw1 \<le> raw2"
  shows "(- 21472536 \<le> raw1 \<and> raw2 \<le> 21477136 \<longrightarrow> soilToPct raw2 \<le> soilToPct raw1)
       \<and> (- 21474386 \<le> raw1 \<and> raw2 \<le> 21475286 \<longrightarrow> lightToPct raw1 \<le> lightToPct raw2)"
proof (intro conjI impI)
  assume r: "- 21472536 \<le> raw1 \<and> raw2 \<le> 21477136"
  have "in32 ((raw1 - 2300) * 100)" "in32 ((raw2 - 2300) * 100)"
    using r assms by (simp_all add: in32_def)
  with assms show "soilToPct raw2 \<le> soilToPct raw1"
    by (rule soilToPct_antimono)
next
  assume r: "- 21474386 \<le> raw1 \<and> raw2 \<le> 21475286"
  have "in32 ((raw1 - 450) * 100)" "in32 ((raw2 - 450) * 100)"
    using r assms by (simp_all add: in32_def)
  with assms show "lightToPct raw1 \<le> lightToPct raw2"
    by (rule lightToPct_mono)
qed

theorem C10_opposite_directions_witness:
  "soilToPct 2300 \<le> soilToPct 700 \<and> lightToPct 450 \<le> lightToPct 3000
   \<and> soilToPct 4095 \<le> soilToPct 0 \<and> lightToPct 0 \<le> lightToPct 4095"
  using C10_opposite_directions [of 700 2300] C10_opposite_directions [of 450 3000]
    C10_opposite_directions [of 0 4095]
  by simp


section \<open>Scorer: range\<close>

lemma score_exact:
  assumes "0 \<le> s" "0 \<le> l"
  shows "score s l = (77 * s + 25 * l) div 100"
proof -
  have "(of_int s * (77 / 10) + of_int l * (5 / 2)) / 10
      = (of_int (77 * s + 25 * l) :: rat) / of_int 100"
    by (simp add: field_simps)
  moreover have "(0::rat) \<le> of_int (77 * s + 25 * l) / of_int 100"
    using assms by simp
  ultimately show ?thesis
    unfolding score_def to_int_def by (simp only: if_True floor_divide_of_int_eq)
qed

lemma score_range:
  assumes "0 \<le> s" "s \<le> 100" "0 \<le> l" "l \<le> 100"
  shows "0 \<le> score s l \<and> score s l \<le> 102"
  using assms by (simp add: score_exact; arith)

text \<open>
  C3. The claim is that the score of two percentages lies in 0..100, with
  \<open>score(100,100) = 100\<close>. The weights of the code are 7.7 and 2.5 over 10, which sum to
  1.02: at full scale the code returns 102.
\<close>

theorem C3_score_full_scale: "score 100 100 = 102"
  by (simp add: score_def to_int_def)


section \<open>Alert state machine: transitions\<close>

text \<open>
  C1. With \<open>m\<close> the message handed to the alert sender in a tick and \<open>alertSent'\<close> the
  flag after it: a "degraded" message is sent and the flag set exactly when the score is
  strictly below the threshold and the flag is false; a "recovered" message is sent and
  the flag cleared exactly when the score is strictly above threshold plus recovery margin
  and the flag is true; no message is sent and the flag is unchanged exactly when the
  score lies in the band from threshold to threshold plus margin, or the machine is
  already in the state the score points to.
\<close>

theorem C1_alert_state_machine:
  fixes scoreV soilPct lightPct :: int and alertSent :: bool
  defines "h \<equiv> (of_int scoreV :: rat)"
  defines "m \<equiv> fst (alertLogic scoreV soilPct lightPct alertSent)"
  defines "alertSent' \<equiv> snd (alertLogic scoreV soilPct lightPct alertSent)"
  shows "((isDegraded m \<and> alertSent') = (h < HAPPINESS_THRESHOLD \<and> \<not> alertSent))
       \<and> ((isRecovered m \<and> \<not> alertSent')
            = (h > HAPPINESS_THRESHOLD + RECOVERY_MARGIN \<and> alertSent))
       \<and> ((m = None \<and> alertSent' = alertSent) =
            ((HAPPINESS_THRESHOLD \<le> h \<and> h \<le> HAPPINESS_THRESHOLD + RECOVERY_MARGIN)
             \<or> (h < HAPPINESS_THRESHOLD \<and> alertSent)
             \<or> (h > HAPPINESS_THRESHOLD + RECOVERY_MARGIN \<and> \<not> alertSent)))
       \<and> (isDegraded m = (h < HAPPINESS_THRESHOLD \<and> \<not> alertSent))
       \<and> (isRecovered m = (h > HAPPINESS_THRESHOLD + RECOVERY_MARGIN \<and> alertSent))"
  unfolding h_def m_def alertSent'_def alertLogic_def Let_def
    HAPPINESS_THRESHOLD_def RECOVERY_MARGIN_def
  by (cases alertSent) auto

theorem C1_alert_state_machine_witness:
  "isDegraded (fst (alertLogic 35 35 33 False)) \<and> snd (alertLogic 35 35 33 False)
   \<and> isRecovered (fst (alertLogic 50 50 46 True)) \<and> \<not> snd (alertLogic 50 50 46 True)
   \<and> fst (alertLogic 42 42 40 True) = None \<and> snd (alertLogic 42 42 40 True)
   \<and> fst (alertLogic 35 35 33 True) = None \<and> snd (alertLogic 35 35 33 True)
   \<and> fst (alertLogic 47 47 46 False) = None \<and> \<not> snd (alertLogic 47 47 46 False)"
  using C1_alert_state_machine [of 35 35 33 False] C1_alert_state_machine [of 50 50 46 True]
    C1_alert_state_machine [of 42 42 40 True] C1_alert_state_machine [of 35 35 33 True]
    C1_alert_state_machine [of 47 47 46 False]
  by (simp add: HAPPINESS_THRESHOLD_def RECOVERY_MARGIN_def)

text \<open>
  C2, as stated, fails: the scores of the six ticks are 60, 35, 35, 50, 42, 47, and the
  "recovered" message goes out at the 50 (the fourth tick), which is above 45 and so
  outside the band; nothing is sent at the 47 (the sixth tick).
\<close>

theorem C2_counterexample:
  "map (case_prod score) exampleTicks = [60, 35, 35, 50, 42, 47]
   \<and> isRecovered (alertTicks False exampleTicks ! 3)
   \<and> alertTicks False exampleTicks ! 5 = None"
  by (simp add: exampleTicks_def score_exact alertLogic_def
      HAPPINESS_THRESHOLD_def RECOVERY_MARGIN_def)

text \<open>
  C2, amended. Starting in the Normal state with threshold 40 and recovery margin 5, the
  score sequence 60, 35, 35, 50, 42, 47 produces exactly one "degraded" message, at the
  first 35, and exactly one "recovered" message, at the 50; nothing is sent at the 60, the
  second 35, the 42 or the 47.
\<close>

theorem C2_alert_sequence:
  "map (case_prod score) exampleTicks = [60, 35, 35, 50, 42, 47]
   \<and> alertTicks False exampleTicks
     = [None, Some (Dropped 35 40 35 33), None, Some (Recovered 50 50 46), None, None]"
  by (simp add: exampleTicks_def score_exact alertLogic_def
      HAPPINESS_THRESHOLD_def RECOVERY_MARGIN_def)


section \<open>Aggregator: window means and reset\<close>

lemma aggRun_append:
  "aggRun v (xs @ ys) st =
     (case aggRun v xs st of (es, st') \<Rightarrow>
        (case aggRun v ys st' of (fs, st'') \<Rightarrow> (es @ fs, st'')))"
  by (induction xs arbitrary: st) (auto split: prod.splits)

lemma aggregate_exact:
  assumes "sampleOk t"
    and "0 \<le> s" "s \<le> 102 * n" "0 \<le> l" "l \<le> 102 * n" "0 \<le> c" "c \<le> 102 * n"
    and "0 \<le> n" "n < 2 ^ 24"
  shows "aggregate (soilPct t) (lightPct t) (scoreV t)
           \<lparr>aggSoilSum = s, aggLightSum = l, aggScoreSum = c, aggCount = n, lastSendMs = start\<rparr>
         = \<lparr>aggSoilSum = s + soilPct t, aggLightSum = l + lightPct t,
            aggScoreSum = c + scoreV t, aggCount = n + 1, lastSendMs = start\<rparr>"
proof -
  have "in32 (s + soilPct t)" "in32 (l + lightPct t)" "in32 (c + scoreV t)" "in32 (n + 1)"
    using assms by (simp_all add: sampleOk_def in32_def)
  then show ?thesis
    by (simp add: aggregate_def wrap32_id)
qed

lemma aggTick_early:
  assumes "sampleOk t" and "now t - start < LOG_INTERVAL_MS"
    and "0 \<le> s" "s \<le> 102 * n" "0 \<le> l" "l \<le> 102 * n" "0 \<le> c" "c \<le> 102 * n"
    and "0 \<le> n" "n < 2 ^ 24"
  shows "aggTick v t
           \<lparr>aggSoilSum = s, aggLightSum = l, aggScoreSum = c, aggCount = n, lastSendMs = start\<rparr>
         = (None, \<lparr>aggSoilSum = s + soilPct t, aggLightSum = l + lightPct t,
            aggScoreSum = c + scoreV t, aggCount = n + 1, lastSendMs = start\<rparr>)"
proof -
  have "\<not> LOG_INTERVAL_MS \<le> now t - start"
    using assms(2) by (simp add: not_le)
  then show ?thesis
    unfolding aggTick_def aggregate_exact [OF assms(1) assms(3-)]
    by (simp add: emitBlock_def)
qed

lemma aggTick_due:
  assumes "sampleOk t" and "LOG_INTERVAL_MS \<le> now t - start"
    and "0 \<le> s" "s \<le> 102 * n" "0 \<le> l" "l \<le> 102 * n" "0 \<le> c" "c \<le> 102 * n"
    and "0 \<le> n" "n < 2 ^ 24"
  shows "\<exists>e. aggTick v t
           \<lparr>aggSoilSum = s, aggLightSum = l, aggScoreSum = c, aggCount = n, lastSendMs = start\<rparr>
         = (Some e, freshAt (now t))
       \<and> avgSoil e = of_int (s + soilPct t) / of_int (n + 1)
       \<and> avgLight e = of_int (l + lightPct t) / of_int (n + 1)
       \<and> avgScore e = of_int (c + scoreV t) / of_int (n + 1)"
  unfolding aggTick_def aggregate_exact [OF assms(1) assms(3-)]
  using assms(2) assms(9) by (simp add: emitBlock_def Let_def freshAt_def)

lemma aggRun_early:
  assumes "list_all sampleOk ts" and "list_all (\<lambda>t. now t - start < LOG_INTERVAL_MS) ts"
    and "0 \<le> s" "s \<le> 102 * n" "0 \<le> l" "l \<le> 102 * n" "0 \<le> c" "c \<le> 102 * n"
    and "0 \<le> n" "n + int (length ts) \<le> 2 ^ 24"
  shows "aggRun v ts
           \<lparr>aggSoilSum = s, aggLightSum = l, aggScoreSum = c, aggCount = n, lastSendMs = start\<rparr>
         = (replicate (length ts) None,
            \<lparr>aggSoilSum = s + sum_list (map soilPct ts),
             aggLightSum = l + sum_list (map lightPct ts),
             aggScoreSum = c + sum_list (map scoreV ts),
             aggCount = n + int (length ts), lastSendMs = start\<rparr>)"
  using assms
proof (induction ts arbitrary: s l c n)
  case Nil
  then show ?case by simp
next
  case (Cons t ts)
  have ok: "sampleOk t" and early: "now t - start < LOG_INTERVAL_MS"
    using Cons.prems(1,2) by simp_all
  have n: "n < 2 ^ 24" using Cons.prems(10) by simp
  have step: "aggTick v t
           \<lparr>aggSoilSum = s, aggLightSum = l, aggScoreSum = c, aggCount = n, lastSendMs = start\<rparr>
         = (None, \<lparr>aggSoilSum = s + soilPct t, aggLightSum = l + lightPct t,
            aggScoreSum = c + scoreV t, aggCount = n + 1, lastSendMs = start\<rparr>)"
    using ok early Cons.prems(3-9) n by (rule aggTick_early)
  have rest: "aggRun v ts
           \<lparr>aggSoilSum = s + soilPct t, aggLightSum = l + lightPct t,
            aggScoreSum = c + scoreV t, aggCount = n + 1, lastSendMs = start\<rparr>
         = (replicate (length ts) None,
            \<lparr>aggSoilSum = s + soilPct t + sum_list (map soilPct ts),
             aggLightSum = l + lightPct t + sum_list (map lightPct ts),
             aggScoreSum = c + scoreV t + sum_list (map scoreV ts),
             aggCount = n + 1 + int (length ts), lastSendMs = start\<rparr>)"
    using Cons.prems ok by (intro Cons.IH) (simp_all add: sampleOk_def)
  show ?case
    by (simp add: step rest add.assoc)
qed


lemma sum_sample_bounds:
  assumes "list_all sampleOk ts"
  shows "0 \<le> sum_list (map soilPct ts) \<and> sum_list (map soilPct ts) \<le> 102 * int (length ts)
       \<and> 0 \<le> sum_list (map lightPct ts) \<and> sum_list (map lightPct ts) \<le> 102 * int (length ts)
       \<and> 0 \<le> sum_list (map scoreV ts) \<and> sum_list (map scoreV ts) \<le> 102 * int (length ts)"
  using assms by (induction ts) (auto simp: sampleOk_def)

lemma window_emits:
  assumes "windowOf start ts"
  shows "\<exists>e. aggRun v ts (freshAt start)
             = (replicate (length ts - 1) None @ [Some e], freshAt (now (last ts)))
           \<and> avgSoil e = mean (map soilPct ts)
           \<and> avgLight e = mean (map lightPct ts)
           \<and> avgScore e = mean (map scoreV ts)"
proof -
  define bs where "bs = butlast ts"
  define t where "t = last ts"
  have ts: "ts = bs @ [t]" using assms by (simp add: windowOf_def bs_def t_def)
  have len: "int (length bs) < 2 ^ 24" using assms unfolding ts windowOf_def by simp
  have oks: "list_all sampleOk bs" and ok: "sampleOk t"
    using assms unfolding ts windowOf_def by simp_all
  have early: "list_all (\<lambda>t. now t - start < LOG_INTERVAL_MS) bs"
    and due: "LOG_INTERVAL_MS \<le> now t - start"
    using assms unfolding ts windowOf_def by simp_all
  note b = sum_sample_bounds [OF oks]
  have run: "aggRun v bs (freshAt start)
         = (replicate (length bs) None,
            \<lparr>aggSoilSum = 0 + sum_list (map soilPct bs),
             aggLightSum = 0 + sum_list (map lightPct bs),
             aggScoreSum = 0 + sum_list (map scoreV bs),
             aggCount = 0 + int (length bs), lastSendMs = start\<rparr>)"
    unfolding freshAt_def using oks early len by (intro aggRun_early) simp_all
  obtain e where e: "aggTick v t
           \<lparr>aggSoilSum = sum_list (map soilPct bs), aggLightSum = sum_list (map lightPct bs),
            aggScoreSum = sum_list (map scoreV bs), aggCount = int (length bs),
            lastSendMs = start\<rparr>
         = (Some e, freshAt (now t))"
       "avgSoil e = of_int (sum_list (map soilPct bs) + soilPct t) / of_int (int (length bs) + 1)"
       "avgLight e = of_int (sum_list (map lightPct bs) + lightPct t) / of_int (int (length bs) + 1)"
       "avgScore e = of_int (sum_list (map scoreV bs) + scoreV t) / of_int (int (length bs) + 1)"
    using aggTick_due [OF ok due, of "sum_list (map soilPct bs)" "int (length bs)"
        "sum_list (map lightPct bs)" "sum_list (map scoreV bs)" v] b len
    by auto
  have "aggRun v ts (freshAt start) = (replicate (length ts - 1) None @ [Some e], freshAt (now (last ts)))"
    unfolding ts by (simp add: aggRun_append run e(1))
  moreover have "avgSoil e = mean (map soilPct ts)" "avgLight e = mean (map lightPct ts)"
    "avgScore e = mean (map scoreV ts)"
    unfolding ts mean_def by (simp_all add: e(2-4) add.commute)
  ultimately show ?thesis by blast
qed

text \<open>
  The ticks that \<^verbatim>\<open>loop\<close> feeds to the aggregator: the percentages come out of the
  calibration and the score out of the scorer, so every such tick carries values in the
  ranges of \<open>sampleOk\<close>; and each loop runs exactly the aggregator tick on them.
\<close>

lemma loop_tick_sampleOk:
  "sampleOk \<lparr>soilPct = soilToPct soilRaw, lightPct = lightToPct ldrRaw,
             scoreV = score (soilToPct soilRaw) (lightToPct ldrRaw),
             now = nowMs, envA = eA, envB = eB\<rparr>"
proof -
  have s: "0 \<le> soilToPct soilRaw" "soilToPct soilRaw \<le> 100"
    unfolding soilToPct_def using clampPct_range by blast+
  have l: "0 \<le> lightToPct ldrRaw" "lightToPct ldrRaw \<le> 100"
    unfolding lightToPct_def using clampPct_range by blast+
  from score_range [OF s l] s l show ?thesis
    by (simp add: sampleOk_def)
qed

lemma loop_main_2_0_aggTick:
  "loop_main_2_0 soilRaw ldrRaw nowMs eA eB st =
     aggTick Main_2_0
       \<lparr>soilPct = soilToPct soilRaw, lightPct = lightToPct ldrRaw,
        scoreV = score (soilToPct soilRaw) (lightToPct ldrRaw),
        now = nowMs, envA = eA, envB = eB\<rparr> st"
  by (simp add: loop_main_2_0_def aggTick_def Let_def)

lemma loop_part_000_aggTick:
  assumes "loop_part_000 soilRaw ldrRaw nowMs eP eA eB (alertSent, st) = Some (d, e, alertSent', st')"
  shows "(e, st') =
     aggTick Part_000
       \<lparr>soilPct = soilToPct soilRaw, lightPct = lightToPct ldrRaw,
        scoreV = score (soilToPct soilRaw) (lightToPct ldrRaw),
        now = nowMs, envA = eA, envB = eB\<rparr> st"
    and "alertSent' =
     snd (alertLogic (score (soilToPct soilRaw) (lightToPct ldrRaw))
            (soilToPct soilRaw) (lightToPct ldrRaw) alertSent)"
  using assms
  by (auto simp: loop_part_000_def aggTick_def Let_def split: prod.splits if_splits)

text \<open>
  C5. For a window of N ticks with known soil, light and score values, the emission at the
  tick where the interval has elapsed returns, for each of the three fields, the
  arithmetic mean of exactly those N samples, and leaves all three sums and the count at
  zero with the window start set to that tick's time. The ticks that follow form a fresh
  window: its emission returns the means of its own samples only, so no sample is
  dropped or counted twice across the reset. (Sample values in the ranges the calibration
  and the scorer produce; at most \<open>2 ^ 17\<close> ticks per window, far beyond the about 120
  ticks that fit into ten minutes, so that the 32-bit sums cannot overflow. The mean is
  the exact quotient; the code holds it rounded to the nearest \<^verbatim>\<open>float\<close>.)
\<close>

theorem C5_window_means:
  assumes "windowOf start ts" and "windowOf (now (last ts)) us"
  shows "\<exists>e1 e2. aggRun v (ts @ us) (freshAt start)
             = (replicate (length ts - 1) None @ [Some e1]
                  @ replicate (length us - 1) None @ [Some e2],
                freshAt (now (last us)))
           \<and> avgSoil e1 = mean (map soilPct ts)
           \<and> avgLight e1 = mean (map lightPct ts)
           \<and> avgScore e1 = mean (map scoreV ts)
           \<and> avgSoil e2 = mean (map soilPct us)
           \<and> avgLight e2 = mean (map lightPct us)
           \<and> avgScore e2 = mean (map scoreV us)"
proof -
  obtain e1 where e1: "aggRun v ts (freshAt start)
             = (replicate (length ts - 1) None @ [Some e1], freshAt (now (last ts)))"
      "avgSoil e1 = mean (map soilPct ts)" "avgLight e1 = mean (map lightPct ts)"
      "avgScore e1 = mean (map scoreV ts)"
    using window_emits [OF assms(1)] by blast
  obtain e2 where e2: "aggRun v us (freshAt (now (last ts)))
             = (replicate (length us - 1) None @ [Some e2], freshAt (now (last us)))"
      "avgSoil e2 = mean (map soilPct us)" "avgLight e2 = mean (map lightPct us)"
      "avgScore e2 = mean (map scoreV us)"
    using window_emits [OF assms(2)] by blast
  have "aggRun v (ts @ us) (freshAt start)
             = (replicate (length ts - 1) None @ [Some e1]
                  @ replicate (length us - 1) None @ [Some e2],
                freshAt (now (last us)))"
    by (simp add: aggRun_append e1(1) e2(1))
  with e1(2-4) e2(2-4) show ?thesis by blast
qed

theorem C5_window_means_witness:
  "map (map_option avgSoil) (fst (aggRun Part_000 (windowA @ windowB) (freshAt 0)))
     = [None, Some 50, Some 50]
   \<and> map (map_option avgLight) (fst (aggRun Part_000 (windowA @ windowB) (freshAt 0)))
     = [None, Some 100, Some 50]
   \<and> map (map_option avgScore) (fst (aggRun Part_000 (windowA @ windowB) (freshAt 0)))
     = [None, Some (127 / 2), Some 51]
   \<and> snd (aggRun Part_000 (windowA @ windowB) (freshAt 0)) = freshAt 1200000"
proof -
  have a: "windowOf 0 windowA"
    by (simp add: windowOf_def windowA_def sampleOk_def LOG_INTERVAL_MS_def)
  have b: "windowOf (now (last windowA)) windowB"
    by (simp add: windowOf_def windowA_def windowB_def sampleOk_def LOG_INTERVAL_MS_def)
  from C5_window_means [OF a b, of Part_000] obtain e1 e2 where
    "aggRun Part_000 (windowA @ windowB) (freshAt 0)
       = (replicate (length windowA - 1) None @ [Some e1]
            @ replicate (length windowB - 1) None @ [Some e2],
          freshAt (now (last windowB)))"
    "avgSoil e1 = mean (map soilPct windowA)" "avgLight e1 = mean (map lightPct windowA)"
    "avgScore e1 = mean (map scoreV windowA)"
    "avgSoil e2 = mean (map soilPct windowB)" "avgLight e2 = mean (map lightPct windowB)"
    "avgScore e2 = mean (map scoreV windowB)"
    by blast
  then show ?thesis
    by (simp add: mean_def windowA_def windowB_def)
qed

text \<open>
  C6. When the accumulated sample count is zero the emission block returns no result and
  leaves the state as it is, whatever the time and the network: nothing is divided and
  nothing is sent.
\<close>

theorem C6_emit_noop_on_empty:
  assumes "aggCount st = 0"
  shows "emitBlock v eA eB nowMs st = (None, st)"
  using assms by (simp add: emitBlock_def)

theorem C6_emit_noop_on_empty_witness:
  "LOG_INTERVAL_MS \<le> 600000 - lastSendMs (freshAt 0)
   \<and> emitBlock Main_2_0 (linkUp 204) (linkUp 201) 600000 (freshAt 0) = (None, freshAt 0)
   \<and> emitBlock Part_000 (linkUp 204) (linkUp 201) 600000 (freshAt 0) = (None, freshAt 0)"
  using C6_emit_noop_on_empty [of "freshAt 0" Main_2_0 "linkUp 204" "linkUp 201" 600000]
    C6_emit_noop_on_empty [of "freshAt 0" Part_000 "linkUp 204" "linkUp 201" 600000]
  by (simp add: freshAt_def LOG_INTERVAL_MS_def)

section \<open>Delivery: isolation of the sinks, payload fields, reconnection\<close>

text \<open>
  C7. In every emission (the interval has elapsed and there is at least one sample),
  whatever happens at telemetry sink A (for instance a POST answered with a code other
  than 204, which is reported as an error), the delivery to sink B is attempted and is
  the same as it would be under any other behaviour of sink A; each sink is posted to at
  most once; and the window (all three sums and the count) is cleared, with the new
  window start recorded, regardless of either outcome. The cleared window cannot be
  emitted again: a failed delivery is not retried against it.
\<close>

theorem C7_independent_delivery:
  assumes "LOG_INTERVAL_MS \<le> nowMs - lastSendMs st" and "0 < aggCount st"
  shows "\<exists>e. emitBlock v eA eB nowMs st = (Some e, freshAt nowMs)
           \<and> (link eA 0 \<and> beginOk eA \<and> postCode eA \<noteq> 204
                \<longrightarrow> result (influx e) = HttpError (postCode eA))
           \<and> supabase e = supabase (the (fst (emitBlock v eA' eB nowMs st)))
           \<and> (link eB 0 \<and> beginOk eB \<longrightarrow> (\<exists>b. events (supabase e) = [HttpPost Supabase b]))
           \<and> length (events (influx e)) \<le> 1 \<and> length (events (supabase e)) \<le> 1
           \<and> emitBlock v eA2 eB2 now2 (freshAt nowMs) = (None, freshAt nowMs)"
  using assms
  by (cases v) (simp_all add: emitBlock_def Let_def freshAt_def sendToInflux_def sendToSupabase_def)

theorem C7_independent_delivery_witness:
  "result (influx (the (fst (emitBlock Main_2_0 (linkUp 500) (linkUp 201) 600000
       (aggregate 0 100 25 (freshAt 0)))))) = HttpError 500
   \<and> result (supabase (the (fst (emitBlock Main_2_0 (linkUp 500) (linkUp 201) 600000
       (aggregate 0 100 25 (freshAt 0)))))) = Success 201
   \<and> events (supabase (the (fst (emitBlock Main_2_0 (linkUp 500) (linkUp 201) 600000
       (aggregate 0 100 25 (freshAt 0))))))
     = [HttpPost Supabase (JsonRow \<lparr>soil_pct = 0, ldr_pct = 100, happiness = 25\<rparr>)]
   \<and> snd (emitBlock Main_2_0 (linkUp 500) (linkUp 201) 600000
       (aggregate 0 100 25 (freshAt 0))) = freshAt 600000"
proof -
  have due: "LOG_INTERVAL_MS \<le> 600000 - lastSendMs (aggregate 0 100 25 (freshAt 0))"
    by (simp add: aggregate_def freshAt_def LOG_INTERVAL_MS_def)
  have cnt: "0 < aggCount (aggregate 0 100 25 (freshAt 0))"
    by (simp add: aggregate_def freshAt_def wrap32_def)
  from C7_independent_delivery [OF due cnt, of Main_2_0 "linkUp 500" "linkUp 201"]
  obtain e where
    "emitBlock Main_2_0 (linkUp 500) (linkUp 201) 600000 (aggregate 0 100 25 (freshAt 0))
       = (Some e, freshAt 600000)"
    "link (linkUp 500) 0 \<and> beginOk (linkUp 500) \<and> postCode (linkUp 500) \<noteq> 204
       \<longrightarrow> result (influx e) = HttpError (postCode (linkUp 500))"
    by blast
  then show ?thesis
    by (auto simp: linkUp_def emitBlock_def Let_def aggregate_def freshAt_def wrap32_def
        LOG_INTERVAL_MS_def sendToSupabase_def to_int_def)
qed

text \<open>
  C8. The claim is that in every source variant the JSON body for sink B carries the
  window-average light percentage in \<open>ldr_pct\<close>. In \<^verbatim>\<open>src/unnamed/part_000\<close> the
  call is \<^verbatim>\<open>sendToSupabase(avgSoil, avgScore, avgScore)\<close>: for a window whose
  average light is 100 and whose average score is 25, the body has \<open>ldr_pct = 25\<close>. The
  line sent to sink A in the same emission, and the body that \<^verbatim>\<open>main_2.0.ino\<close> sends
  to sink B, have \<open>ldr_pct = 100\<close>.
\<close>

theorem C8_supabase_light_field:
  "avgLight (the (fst (emitBlock Part_000 (linkUp 204) (linkUp 201) 600000
       (aggregate 0 100 25 (freshAt 0))))) = 100
   \<and> events (supabase (the (fst (emitBlock Part_000 (linkUp 204) (linkUp 201) 600000
       (aggregate 0 100 25 (freshAt 0))))))
     = [HttpPost Supabase (JsonRow \<lparr>soil_pct = 0, ldr_pct = 25, happiness = 25\<rparr>)]
   \<and> events (influx (the (fst (emitBlock Part_000 (linkUp 204) (linkUp 201) 600000
       (aggregate 0 100 25 (freshAt 0))))))
     = [HttpPost Influx (LineProtocol \<lparr>soil_pct = 0, ldr_pct = 100, happiness = 25\<rparr>)]
   \<and> events (supabase (the (fst (emitBlock Main_2_0 (linkUp 204) (linkUp 201) 600000
       (aggregate 0 100 25 (freshAt 0))))))
     = [HttpPost Supabase (JsonRow \<lparr>soil_pct = 0, ldr_pct = 100, happiness = 25\<rparr>)]"
  by (simp add: emitBlock_def Let_def freshAt_def aggregate_def wrap32_def linkUp_def
      LOG_INTERVAL_MS_def sendToInflux_def sendToSupabase_def to_int_def)

text \<open>
  C9, as stated, fails for both telemetry senders: with the link down at the start of
  the call they give up at once and never call the reconnect operation.
\<close>

theorem C9_counterexample:
  "\<not> link linkDown 0
   \<and> count_list (events (sendToInflux linkDown 0 100 25)) Reconnect = 0
   \<and> count_list (events (sendToSupabase linkDown 0 100 25)) Reconnect = 0"
  by (simp add: linkDown_def sendToInflux_def sendToSupabase_def)

lemma postPushover_no_reconnect:
  "count_list (events (postPushover env msg evs)) Reconnect = count_list evs Reconnect"
  by (simp add: postPushover_def)

lemma connect_flap: "connectToWiFi (\<lambda>k. k = Suc 0 \<or> k = 2) (Suc 0) = Some 3"
  by code_simp

lemma connect_never: "connectToWiFi (\<lambda>k. False) (Suc 0) = None"
  by code_simp

text \<open>
  C9, amended. With connectivity absent at the start of the call: the alert sender calls
  the reconnect operation exactly once and, if connectivity is still absent when it
  checks again, abandons the delivery (skipped, nothing posted); if the reconnect
  operation uses up its attempts the device restarts and the call does not return. The
  two telemetry senders do not reconnect: they abandon the delivery at once (skipped,
  nothing posted). No sender repeats a request: the alert sender does at most one POST
  after its one reconnect.
\<close>

theorem C9_delivery_reconnect:
  assumes "\<not> link env 0"
  shows "count_list (events (sendPushoverAlert env msg)) Reconnect = 1
       \<and> length (events (sendPushoverAlert env msg)) \<le> 2
       \<and> (\<forall>k. connectToWiFi (link env) 1 = Some k \<and> \<not> link env k
            \<longrightarrow> sendPushoverAlert env msg = \<lparr>result = SkippedNoLink, events = [Reconnect]\<rparr>)
       \<and> (connectToWiFi (link env) 1 = None
            \<longrightarrow> sendPushoverAlert env msg = \<lparr>result = FatalRestart, events = [Reconnect]\<rparr>)
       \<and> sendToInflux env a b c = \<lparr>result = SkippedNoLink, events = []\<rparr>
       \<and> sendToSupabase env a b c = \<lparr>result = SkippedNoLink, events = []\<rparr>"
  using assms
  by (auto simp: sendPushoverAlert_def sendToInflux_def sendToSupabase_def
      postPushover_no_reconnect postPushover_def split: option.splits)

theorem C9_delivery_reconnect_witness:
  "sendPushoverAlert \<lparr>link = (\<lambda>k. k = 1 \<or> k = 2), beginOk = True, postCode = 200\<rparr>
       (Recovered 50 50 46) = \<lparr>result = SkippedNoLink, events = [Reconnect]\<rparr>
   \<and> sendPushoverAlert linkDown (Recovered 50 50 46)
       = \<lparr>result = FatalRestart, events = [Reconnect]\<rparr>
   \<and> sendToInflux linkDown 0 100 25 = \<lparr>result = SkippedNoLink, events = []\<rparr>
   \<and> sendToSupabase linkDown 0 100 25 = \<lparr>result = SkippedNoLink, events = []\<rparr>"
  using C9_delivery_reconnect
      [of "\<lparr>link = (\<lambda>k. k = 1 \<or> k = 2), beginOk = True, postCode = 200\<rparr>"
          "Recovered 50 50 46" 0 100 25]
    C9_delivery_reconnect [of linkDown "Recovered 50 50 46" 0 100 25]
  by (simp add: connect_flap connect_never linkDown_def)

end
